theory Spec2Isabelle
  imports Complex_Main "HOL-Library.AList"
begin

section \<open>The portfolio ledger of \<open>trading_execution.py\<close>\<close>

text \<open>
  The theory embeds the classes \<open>Position\<close> and \<open>Portfolio\<close> of
  \<open>src/trading_execution.py\<close>. Python floats are read as real numbers, so the
  arithmetic is exact and rounding is not modelled; a float division by zero is the
  exception \<open>ZeroDivisionError\<close>. A \<open>datetime\<close> is a natural number. Calls to the
  loggers leave the ledger untouched and are left out.

  In the first ledger below a \<open>Position\<close> object is a value of the ledger that holds it:
  \<open>add_position\<close> is taken to receive an object the ledger does not hold already, and
  nothing but the methods below changes a stored position. A second ledger, further down,
  keeps the objects by reference, for sequences of calls that hand over one object twice.
\<close>

subsection \<open>Exceptions\<close>

datatype error = ZeroDivisionError

text \<open>
  A method mutates its object in place, and an exception leaves the mutations made
  so far standing. So a call yields the state it leaves behind together with the way
  it ended.
\<close>

datatype 'a outcome = Returned 'a | Raised error 'a

fun state_of :: "'a outcome \<Rightarrow> 'a" where
  "state_of (Returned s) = s"
| "state_of (Raised e s) = s"

fun returned :: "'a outcome \<Rightarrow> bool" where
  "returned (Returned s) = True"
| "returned (Raised e s) = False"

subsection \<open>Data model\<close>

type_synonym datetime = nat

record position =
  ticker :: string
  quantity :: real
  entry_price :: real
  entry_time :: datetime
  stop_loss :: "real option"
  take_profit :: "real option"
  metadata :: "(string \<times> string) list"
  exit_price :: "real option"
  exit_time :: "datetime option"
  pnl :: real
  pnl_percentage :: real
  status :: string

text \<open>The dictionaries appended to \<open>Portfolio.transactions\<close>; the keys \<open>pnl\<close> and
  \<open>pnl_percentage\<close> are present in a closing entry only.\<close>

record transaction =
  tx_type :: string
  tx_ticker :: string
  tx_quantity :: real
  tx_price :: real
  tx_timestamp :: datetime
  tx_value :: real
  tx_pnl :: "real option"
  tx_pnl_percentage :: "real option"

text \<open>The dictionaries appended to \<open>Portfolio.equity_curve\<close>.\<close>

record equity_sample =
  ec_timestamp :: datetime
  ec_portfolio_value :: real
  ec_cash :: real

text \<open>
  \<open>Portfolio.positions\<close> is a Python dictionary, which keeps its keys in insertion
  order: an association list, written with \<open>AList.update\<close> (an assignment to a key
  replaces the value in place, a new key goes to the end) and \<open>AList.delete\<close>.
\<close>

record portfolio =
  initial_capital :: real
  cash :: real
  positions :: "(string \<times> position) list"
  closed_positions :: "position list"
  equity_curve :: "equity_sample list"
  transactions :: "transaction list"

text \<open>
  \<open>EXIT_RULES["stop_loss"]\<close> comes from the configuration module; the two entries
  that \<open>update_position\<close> reads are parameters of the model.
\<close>

record exit_rules =
  trailing :: bool
  percentage :: real

subsection \<open>Position\<close>

definition Position ::
  "string \<Rightarrow> real \<Rightarrow> real \<Rightarrow> datetime \<Rightarrow> real option \<Rightarrow> real option \<Rightarrow> position" where
  "Position tk q ep et sl tp =
     \<lparr>ticker = tk, quantity = q, entry_price = ep, entry_time = et, stop_loss = sl,
      take_profit = tp, metadata = [], exit_price = None, exit_time = None, pnl = 0,
      pnl_percentage = 0, status = ''open''\<rparr>"

definition update_stop_loss :: "position \<Rightarrow> real \<Rightarrow> position" where
  "update_stop_loss p price = p\<lparr>stop_loss := Some price\<rparr>"

definition update_take_profit :: "position \<Rightarrow> real \<Rightarrow> position" where
  "update_take_profit p price = p\<lparr>take_profit := Some price\<rparr>"

text \<open>
  The constructor above leaves the optional \<open>metadata\<close> argument at its default, the empty
  dictionary.

  \<open>Position.close\<close>: the exit price, the exit time and the pnl are stored before
  the percentage is computed, so they stay when the division raises.
\<close>

definition close :: "position \<Rightarrow> real \<Rightarrow> datetime \<Rightarrow> position outcome" where
  "close p exit_price' exit_time' =
     (let p1 = p\<lparr>exit_price := Some exit_price', exit_time := Some exit_time'\<rparr>;
          p2 = p1\<lparr>pnl := (exit_price' - entry_price p1) * quantity p1\<rparr>
      in if entry_price p2 = 0 then Raised ZeroDivisionError p2
         else Returned
           (p2\<lparr>pnl_percentage :=
                  (exit_price' / entry_price p2 - 1) * 100 * (if quantity p2 > 0 then 1 else - 1),
                status := ''closed''\<rparr>))"

subsection \<open>Portfolio\<close>

definition Portfolio :: "real \<Rightarrow> portfolio" where
  "Portfolio c =
     \<lparr>initial_capital = c, cash = c, positions = [], closed_positions = [],
      equity_curve = [], transactions = []\<rparr>"

definition add_position :: "portfolio \<Rightarrow> position \<Rightarrow> portfolio" where
  "add_position pf p =
     pf\<lparr>positions := AList.update (ticker p) p (positions pf),
        cash := cash pf - quantity p * entry_price p,
        transactions := transactions pf @
          [\<lparr>tx_type = ''open'', tx_ticker = ticker p, tx_quantity = quantity p,
            tx_price = entry_price p, tx_timestamp = entry_time p,
            tx_value = quantity p * entry_price p, tx_pnl = None,
            tx_pnl_percentage = None\<rparr>]\<rparr>"

definition close_position ::
  "portfolio \<Rightarrow> string \<Rightarrow> real \<Rightarrow> datetime \<Rightarrow> portfolio outcome" where
  "close_position pf tk exit_price' exit_time' =
     (case map_of (positions pf) tk of
        None \<Rightarrow> Returned pf
      | Some p \<Rightarrow>
          (case close p exit_price' exit_time' of
             Raised e p' \<Rightarrow> Raised e (pf\<lparr>positions := AList.update tk p' (positions pf)\<rparr>)
           | Returned p' \<Rightarrow>
               Returned
                 (pf\<lparr>cash := cash pf + quantity p' * exit_price',
                     closed_positions := closed_positions pf @ [p'],
                     transactions := transactions pf @
                       [\<lparr>tx_type = ''close'', tx_ticker = ticker p',
                         tx_quantity = quantity p', tx_price = exit_price',
                         tx_timestamp = exit_time', tx_value = quantity p' * exit_price',
                         tx_pnl = Some (pnl p'), tx_pnl_percentage = Some (pnl_percentage p')\<rparr>],
                     positions := AList.delete tk (positions pf)\<rparr>)))"

text \<open>The two exit tests of \<open>update_position\<close>, as the source writes them.\<close>

definition stop_loss_triggered :: "position \<Rightarrow> real \<Rightarrow> bool" where
  "stop_loss_triggered p current_price =
     (case stop_loss p of
        None \<Rightarrow> False
      | Some s \<Rightarrow> (quantity p > 0 \<and> current_price \<le> s) \<or> (quantity p < 0 \<and> current_price \<ge> s))"

definition take_profit_triggered :: "position \<Rightarrow> real \<Rightarrow> bool" where
  "take_profit_triggered p current_price =
     (case take_profit p of
        None \<Rightarrow> False
      | Some t \<Rightarrow> (quantity p > 0 \<and> current_price \<ge> t) \<or> (quantity p < 0 \<and> current_price \<le> t))"

text \<open>The last block of \<open>update_position\<close>: the trailing stop.\<close>

definition trail_stop :: "exit_rules \<Rightarrow> position \<Rightarrow> real \<Rightarrow> position" where
  "trail_stop rules p current_price =
     (if trailing rules then
        (case stop_loss p of
           None \<Rightarrow> p
         | Some s \<Rightarrow>
             if quantity p > 0 then
               (let new_stop = current_price * (1 - percentage rules)
                in if new_stop > s then update_stop_loss p new_stop else p)
             else
               (let new_stop = current_price * (1 + percentage rules)
                in if new_stop < s then update_stop_loss p new_stop else p))
      else p)"

text \<open>
  \<open>update_position\<close> computes the unrealized percentage first, dividing by the entry
  price, and raises there before any check when the entry price is zero.
\<close>

definition update_position ::
  "exit_rules \<Rightarrow> portfolio \<Rightarrow> string \<Rightarrow> real \<Rightarrow> datetime \<Rightarrow> portfolio outcome" where
  "update_position rules pf tk current_price current_time =
     (case map_of (positions pf) tk of
        None \<Rightarrow> Returned pf
      | Some p \<Rightarrow>
          if entry_price p = 0 then Raised ZeroDivisionError pf
          else if stop_loss_triggered p current_price
            then close_position pf tk current_price current_time
          else if take_profit_triggered p current_price
            then close_position pf tk current_price current_time
          else Returned
            (pf\<lparr>positions := AList.update tk (trail_stop rules p current_price) (positions pf)\<rparr>))"

text \<open>The valuation loop shared by \<open>update_portfolio\<close> and \<open>get_portfolio_value\<close>.\<close>

fun add_values :: "real \<Rightarrow> (string \<times> position) list \<Rightarrow> (string \<rightharpoonup> real) \<Rightarrow> real" where
  "add_values v [] current_prices = v"
| "add_values v ((tk, p) # ps) current_prices =
     (case current_prices tk of
        None \<Rightarrow> add_values v ps current_prices
      | Some price \<Rightarrow> add_values (v + quantity p * price) ps current_prices)"

definition get_portfolio_value :: "portfolio \<Rightarrow> (string \<rightharpoonup> real) \<Rightarrow> real" where
  "get_portfolio_value pf current_prices = add_values (cash pf) (positions pf) current_prices"

definition get_position_value :: "portfolio \<Rightarrow> (string \<rightharpoonup> real) \<Rightarrow> real" where
  "get_position_value pf current_prices = add_values 0 (positions pf) current_prices"

text \<open>The first loop of \<open>update_portfolio\<close>, over the keys listed before it starts.\<close>

fun update_positions ::
  "exit_rules \<Rightarrow> portfolio \<Rightarrow> string list \<Rightarrow> (string \<rightharpoonup> real) \<Rightarrow> datetime \<Rightarrow> portfolio outcome"
  where
  "update_positions rules pf [] current_prices current_time = Returned pf"
| "update_positions rules pf (tk # tks) current_prices current_time =
     (case current_prices tk of
        None \<Rightarrow> update_positions rules pf tks current_prices current_time
      | Some price \<Rightarrow>
          (case update_position rules pf tk price current_time of
             Raised e pf' \<Rightarrow> Raised e pf'
           | Returned pf' \<Rightarrow> update_positions rules pf' tks current_prices current_time))"

definition update_portfolio ::
  "exit_rules \<Rightarrow> portfolio \<Rightarrow> (string \<rightharpoonup> real) \<Rightarrow> datetime \<Rightarrow> portfolio outcome" where
  "update_portfolio rules pf current_prices current_time =
     (case update_positions rules pf (map fst (positions pf)) current_prices current_time of
        Raised e pf' \<Rightarrow> Raised e pf'
      | Returned pf' \<Rightarrow>
          Returned
            (pf'\<lparr>equity_curve := equity_curve pf' @
               [\<lparr>ec_timestamp = current_time,
                 ec_portfolio_value = add_values (cash pf') (positions pf') current_prices,
                 ec_cash = cash pf'\<rparr>]\<rparr>))"

subsection \<open>Sequences of calls\<close>

text \<open>
  A sequence of \<open>update_position\<close> calls, each a ticker, a price and a time. An
  exception ends the sequence with the state it left.
\<close>

fun run_updates ::
  "exit_rules \<Rightarrow> portfolio \<Rightarrow> (string \<times> real \<times> datetime) list \<Rightarrow> portfolio outcome" where
  "run_updates rules pf [] = Returned pf"
| "run_updates rules pf ((tk, price, t) # calls) =
     (case update_position rules pf tk price t of
        Raised e pf' \<Rightarrow> Raised e pf'
      | Returned pf' \<Rightarrow> run_updates rules pf' calls)"

text \<open>
  What one open position adds to the portfolio value under a price snapshot, and the condition
  under which \<open>update_position\<close> cannot raise for a ticker of the snapshot.
\<close>

definition priced_value :: "(string \<rightharpoonup> real) \<Rightarrow> string \<times> position \<Rightarrow> real" where
  "priced_value current_prices kv =
     (case current_prices (fst kv) of None \<Rightarrow> 0 | Some price \<Rightarrow> quantity (snd kv) * price)"

definition priced_entries_nonzero :: "portfolio \<Rightarrow> (string \<rightharpoonup> real) \<Rightarrow> bool" where
  "priced_entries_nonzero pf cp \<longleftrightarrow>
     (\<forall>tk p. (tk, p) \<in> set (positions pf) \<longrightarrow> cp tk \<noteq> None \<longrightarrow> entry_price p \<noteq> 0)"

subsection \<open>Position objects by identity\<close>













subsection \<open>RiskManager\<close>

text \<open>
  Modelled from the spec: the state of the class \<open>RiskManager\<close>, which is not in the source
  files. The spec names a configured maximum risk fraction per trade, a configured confidence
  floor and the current portfolio equity.
\<close>

record risk_manager =
  max_risk_percent :: real
  confidence_floor :: real
  portfolio_equity :: real

text \<open>
  Modelled from the spec: the method \<open>RiskManager.calculate_position_size\<close>, which is not in
  the source files (only its callers in \<open>main.py\<close>, \<open>integration_test.py\<close> and
  \<open>performance_test.py\<close> are, passing a symbol, a signal, a confidence and a price). The spec
  gives the contract: the maximum risk fraction of the portfolio equity, scaled proportionally
  by the confidence (0 to 100), zero at or below the confidence floor, and zero when the price
  is not positive or the confidence is out of range.
\<close>

definition calculate_position_size ::
  "risk_manager \<Rightarrow> string \<Rightarrow> string \<Rightarrow> real \<Rightarrow> real \<Rightarrow> real" where
  "calculate_position_size rm symbol signal confidence current_price =
     (if current_price \<le> 0 then 0
      else if confidence < 0 \<or> confidence > 100 then 0
      else if confidence \<le> confidence_floor rm then 0
      else max_risk_percent rm * portfolio_equity rm * (confidence / 100) / current_price)"

subsection \<open>Example ledgers\<close>

definition aapl :: position where
  "aapl = Position ''AAPL'' 10 150 1 (Some 145) None"

definition held :: portfolio where
  "held = add_position (Portfolio 100000) aapl"

definition aapl_tp :: position where
  "aapl_tp = Position ''AAPL'' 10 150 1 (Some 145) (Some 160)"

definition msft :: position where
  "msft = Position ''MSFT'' 4 300 1 None (Some 400)"

definition tsla :: position where
  "tsla = Position ''TSLA'' (- 5) 200 1 (Some 210) None"

definition rules5 :: exit_rules where
  "rules5 = \<lparr>trailing = True, percentage = 5 / 100\<rparr>"

definition two_held :: portfolio where
  "two_held = add_position (add_position (Portfolio 100000) aapl) msft"

definition two_percent :: risk_manager where
  "two_percent = \<lparr>max_risk_percent = 2 / 100, confidence_floor = 60, portfolio_equity = 100000\<rparr>"


section \<open>Auxiliary facts\<close>

lemmas eval_defs = update_position_def close_position_def close_def add_position_def
  Portfolio_def Position_def stop_loss_triggered_def take_profit_triggered_def trail_stop_def
  update_stop_loss_def Let_def

lemma held_positions: "positions held = [(''AAPL'', aapl)]"
  by (simp add: held_def add_position_def Portfolio_def aapl_def Position_def)

lemma held_cash: "cash held = 98500"
  by (simp add: held_def add_position_def Portfolio_def aapl_def Position_def)

lemma map_of_delete_same: "map_of (AList.delete k al) k = None"
  by (simp add: delete_conv')

lemma close_entry_nonzero:
  "entry_price p \<noteq> 0 \<Longrightarrow>
   close p e t = Returned (state_of (close p e t)) \<and>
   stop_loss (state_of (close p e t)) = stop_loss p \<and>
   quantity (state_of (close p e t)) = quantity p"
  by (simp add: close_def Let_def)

lemma close_position_open:
  assumes "map_of (positions pf) tk = Some p" and "entry_price p \<noteq> 0"
  shows "\<exists>pf'. close_position pf tk e t = Returned pf' \<and>
           map_of (positions pf') tk = None \<and>
           positions pf' = AList.delete tk (positions pf) \<and>
           closed_positions pf' = closed_positions pf @ [state_of (close p e t)] \<and>
           cash pf' = cash pf + quantity p * e \<and>
           length (transactions pf') = Suc (length (transactions pf)) \<and>
           equity_curve pf' = equity_curve pf"
proof -
  define p' where "p' = state_of (close p e t)"
  from close_entry_nonzero [OF assms(2), of e t]
  have c: "close p e t = Returned p'" and q: "quantity p' = quantity p"
    by (simp_all add: p'_def)
  show ?thesis
    using assms(1) q by (simp add: close_position_def c map_of_delete_same)
qed

lemma update_position_keeps:
  assumes "map_of (positions pf) tk = Some p" and "entry_price p \<noteq> 0"
    and "\<not> stop_loss_triggered p price" and "\<not> take_profit_triggered p price"
  shows "update_position rules pf tk price t =
           Returned (pf\<lparr>positions := AList.update tk (trail_stop rules p price) (positions pf)\<rparr>)"
  using assms by (simp add: update_position_def)

lemma run_updates_invariant:
  assumes step: "\<And>pf tk price t. I pf \<Longrightarrow> I (state_of (update_position rules pf tk price t))"
    and init: "I pf"
  shows "I (state_of (run_updates rules pf calls))"
  using init
proof (induction calls arbitrary: pf)
  case Nil
  then show ?case by simp
next
  case (Cons c calls)
  obtain tk price t where c: "c = (tk, price, t)" by (cases c) auto
  from step [OF Cons.prems, of tk price t]
  have s: "I (state_of (update_position rules pf tk price t))" .
  show ?case
  proof (cases "update_position rules pf tk price t")
    case (Returned pf')
    with s Cons.IH [of pf'] c show ?thesis by simp
  next
    case (Raised e pf')
    with s c show ?thesis by simp
  qed
qed

lemma update_position_other:
  assumes "tk' \<noteq> tk"
  shows "map_of (positions (state_of (update_position rules pf tk' price t))) tk =
         map_of (positions pf) tk"
proof (cases "map_of (positions pf) tk'")
  case None
  then show ?thesis by (simp add: update_position_def)
next
  case (Some q)
  show ?thesis
  proof (cases "entry_price q = 0")
    case True
    with Some show ?thesis by (simp add: update_position_def)
  next
    case False
    from close_position_open [OF Some False, of price t] obtain pf' where
      "close_position pf tk' price t = Returned pf'"
      "positions pf' = AList.delete tk' (positions pf)"
      by blast
    with Some False assms show ?thesis
      by (simp add: update_position_def update_conv' delete_conv')
  qed
qed

lemma update_position_same:
  assumes "map_of (positions pf) tk = Some p"
  shows "map_of (positions (state_of (update_position rules pf tk price t))) tk = None \<or>
         map_of (positions (state_of (update_position rules pf tk price t))) tk = Some p \<and>
           entry_price p = 0 \<or>
         map_of (positions (state_of (update_position rules pf tk price t))) tk =
           Some (trail_stop rules p price) \<and> entry_price p \<noteq> 0 \<and>
           \<not> stop_loss_triggered p price \<and> \<not> take_profit_triggered p price"
proof (cases "entry_price p = 0")
  case True
  with assms show ?thesis by (simp add: update_position_def)
next
  case False
  from close_position_open [OF assms False, of price t] obtain pf' where
    "close_position pf tk price t = Returned pf'" "map_of (positions pf') tk = None"
    by blast
  with assms False show ?thesis
    by (simp add: update_position_def update_conv')
qed

lemma update_position_absent:
  assumes "map_of (positions pf) tk = None"
  shows "map_of (positions (state_of (update_position rules pf tk' price t))) tk = None"
proof (cases "tk' = tk")
  case True
  with assms show ?thesis by (simp add: update_position_def)
next
  case False
  with assms update_position_other [OF False] show ?thesis by simp
qed

lemma trail_stop_no_stop: "stop_loss p = None \<Longrightarrow> trail_stop rules p price = p"
  by (simp add: trail_stop_def)

lemma trail_stop_fields:
  "quantity (trail_stop rules p price) = quantity p \<and>
   entry_price (trail_stop rules p price) = entry_price p \<and>
   take_profit (trail_stop rules p price) = take_profit p"
  by (simp add: trail_stop_def update_stop_loss_def Let_def split: option.splits)

lemma trail_stop_long:
  "quantity p > 0 \<Longrightarrow> stop_loss p = Some s \<Longrightarrow>
   \<exists>s'. stop_loss (trail_stop rules p price) = Some s' \<and> s \<le> s'"
  by (simp add: trail_stop_def update_stop_loss_def Let_def)

lemma trail_stop_short:
  "\<not> quantity p > 0 \<Longrightarrow> stop_loss p = Some s \<Longrightarrow>
   \<exists>s'. stop_loss (trail_stop rules p price) = Some s' \<and> s' \<le> s"
  by (simp add: trail_stop_def update_stop_loss_def Let_def)

lemma trail_stop_lower_bound:
  "quantity p > 0 \<Longrightarrow> trailing rules \<Longrightarrow> stop_loss p = Some s \<Longrightarrow>
   \<exists>s'. stop_loss (trail_stop rules p price) = Some s' \<and> price * (1 - percentage rules) \<le> s'"
  by (simp add: trail_stop_def update_stop_loss_def Let_def)

lemma trail_stop_falling:
  assumes "quantity p > 0" and "percentage rules \<le> 1" and "p2 \<le> p1"
  shows "stop_loss (trail_stop rules (trail_stop rules p p1) p2) =
         stop_loss (trail_stop rules p p1)"
proof (cases "stop_loss p")
  case None
  then show ?thesis by (simp add: trail_stop_no_stop)
next
  case (Some s)
  show ?thesis
  proof (cases "trailing rules")
    case False
    then show ?thesis by (simp add: trail_stop_def split: option.splits)
  next
    case True
    from trail_stop_lower_bound [OF assms(1) True Some, of p1] obtain s' where
      s': "stop_loss (trail_stop rules p p1) = Some s'" "p1 * (1 - percentage rules) \<le> s'"
      by blast
    have "p2 * (1 - percentage rules) \<le> p1 * (1 - percentage rules)"
      using assms(2,3) by (simp add: mult_right_mono)
    with s' have "\<not> p2 * (1 - percentage rules) > s'" by simp
    with s' assms(1) show ?thesis
      by (simp add: trail_stop_def [of rules "trail_stop rules p p1"] trail_stop_fields Let_def)
  qed
qed

lemma long_stop_invariant:
  fixes s :: real
  assumes "case map_of (positions pf) tk of None \<Rightarrow> True
           | Some q \<Rightarrow> quantity q > 0 \<and> (\<exists>s'. stop_loss q = Some s' \<and> s \<le> s')"
  shows "case map_of (positions (state_of (update_position rules pf tk' price t))) tk of
           None \<Rightarrow> True
         | Some q \<Rightarrow> quantity q > 0 \<and> (\<exists>s'. stop_loss q = Some s' \<and> s \<le> s')"
proof (cases "tk' = tk")
  case False
  with assms update_position_other [OF False, of rules pf price t] show ?thesis by simp
next
  case True
  show ?thesis
  proof (cases "map_of (positions pf) tk")
    case None
    from update_position_absent [OF this, of rules tk' price t] show ?thesis by simp
  next
    case (Some q)
    with assms obtain s0 where q: "quantity q > 0" "stop_loss q = Some s0" "s \<le> s0"
      by auto
    from trail_stop_long [OF q(1,2), of rules price] obtain s1 where
      "stop_loss (trail_stop rules q price) = Some s1" "s0 \<le> s1" by blast
    with q update_position_same [OF Some, of rules price t] True show ?thesis
      by (auto simp: trail_stop_fields)
  qed
qed

lemma short_stop_invariant:
  fixes s :: real
  assumes "case map_of (positions pf) tk of None \<Rightarrow> True
           | Some q \<Rightarrow> \<not> quantity q > 0 \<and> (\<exists>s'. stop_loss q = Some s' \<and> s' \<le> s)"
  shows "case map_of (positions (state_of (update_position rules pf tk' price t))) tk of
           None \<Rightarrow> True
         | Some q \<Rightarrow> \<not> quantity q > 0 \<and> (\<exists>s'. stop_loss q = Some s' \<and> s' \<le> s)"
proof (cases "tk' = tk")
  case False
  with assms update_position_other [OF False, of rules pf price t] show ?thesis by simp
next
  case True
  show ?thesis
  proof (cases "map_of (positions pf) tk")
    case None
    from update_position_absent [OF this, of rules tk' price t] show ?thesis by simp
  next
    case (Some q)
    with assms obtain s0 where q: "\<not> quantity q > 0" "stop_loss q = Some s0" "s0 \<le> s"
      by auto
    from trail_stop_short [OF q(1,2), of rules price] obtain s1 where
      "stop_loss (trail_stop rules q price) = Some s1" "s1 \<le> s0" by blast
    with q update_position_same [OF Some, of rules price t] True show ?thesis
      by (auto simp: trail_stop_fields)
  qed
qed

lemma long_stop_run:
  assumes "map_of (positions pf) tk = Some p" and "quantity p > 0" and "stop_loss p = Some s"
    and "map_of (positions (state_of (run_updates rules pf calls))) tk = Some p'"
  shows "\<exists>s'. stop_loss p' = Some s' \<and> s \<le> s'"
proof -
  let ?I = "\<lambda>pf::portfolio. case map_of (positions pf) tk of None \<Rightarrow> True
              | Some q \<Rightarrow> quantity q > 0 \<and> (\<exists>s'. stop_loss q = Some s' \<and> s \<le> s')"
  have "?I (state_of (run_updates rules pf calls))"
  proof (rule run_updates_invariant [where I = ?I])
    show "?I pf" using assms(1-3) by simp
  qed (rule long_stop_invariant)
  with assms(4) show ?thesis by simp
qed

lemma short_stop_run:
  assumes "map_of (positions pf) tk = Some p" and "quantity p < 0" and "stop_loss p = Some s"
    and "map_of (positions (state_of (run_updates rules pf calls))) tk = Some p'"
  shows "\<exists>s'. stop_loss p' = Some s' \<and> s' \<le> s"
proof -
  let ?I = "\<lambda>pf::portfolio. case map_of (positions pf) tk of None \<Rightarrow> True
              | Some q \<Rightarrow> \<not> quantity q > 0 \<and> (\<exists>s'. stop_loss q = Some s' \<and> s' \<le> s)"
  have "?I (state_of (run_updates rules pf calls))"
  proof (rule run_updates_invariant [where I = ?I])
    show "?I pf" using assms(1-3) by simp
  qed (rule short_stop_invariant)
  with assms(4) show ?thesis by simp
qed

lemma falling_price_keeps_stop:
  assumes "map_of (positions pf) tk = Some p" and "quantity p > 0"
    and "percentage rules \<le> 1" and "p2 \<le> p1"
    and a: "map_of (positions (state_of (update_position rules pf tk p1 t1))) tk = Some a"
    and b: "map_of (positions (state_of
              (update_position rules (state_of (update_position rules pf tk p1 t1)) tk p2 t2))) tk
            = Some b"
  shows "stop_loss b = stop_loss a"
proof -
  from update_position_same [OF assms(1), of rules p1 t1] a
  consider "a = p" "entry_price p = 0" | "a = trail_stop rules p p1" "entry_price p \<noteq> 0"
    by auto
  then show ?thesis
  proof cases
    case 1
    with a update_position_same [OF a, of rules p2 t2] b show ?thesis by auto
  next
    case 2
    from update_position_same [OF a, of rules p2 t2] b 2
    have "b = trail_stop rules a p2" by (auto simp: trail_stop_fields)
    with 2 trail_stop_falling [OF assms(2-4)] show ?thesis by simp
  qed
qed

lemma add_values_sum:
  "add_values v ps cp = v + (\<Sum>kv\<leftarrow>ps. priced_value cp kv)"
  by (induction v ps cp rule: add_values.induct)
     (simp_all add: priced_value_def split: option.splits)

lemma sum_priced_filter:
  "(\<Sum>kv\<leftarrow>ps. priced_value cp kv) =
   (\<Sum>(tk, p)\<leftarrow>filter (\<lambda>(tk, p). cp tk \<noteq> None) ps. quantity p * the (cp tk))"
  by (induction ps) (auto simp: priced_value_def split: option.splits)

lemma set_update_subset: "set (AList.update k v al) \<subseteq> insert (k, v) (set al)"
  by (induction al) auto

lemma set_delete_subset: "set (AList.delete k al) \<subseteq> set al"
  by (auto simp: AList.delete_eq)

lemma update_position_returns:
  assumes "priced_entries_nonzero pf cp" and "cp tk = Some price"
  shows "\<exists>pf'. update_position rules pf tk price t = Returned pf' \<and>
           priced_entries_nonzero pf' cp \<and> equity_curve pf' = equity_curve pf"
proof (cases "map_of (positions pf) tk")
  case None
  with assms(1) show ?thesis by (simp add: update_position_def)
next
  case (Some p)
  then have "(tk, p) \<in> set (positions pf)" by (rule map_of_SomeD)
  with assms have nz: "entry_price p \<noteq> 0"
    by (auto simp: priced_entries_nonzero_def)
  show ?thesis
  proof (cases "stop_loss_triggered p price \<or> take_profit_triggered p price")
    case True
    from close_position_open [OF Some nz, of price t] obtain pf' where
      c: "close_position pf tk price t = Returned pf'"
         "positions pf' = AList.delete tk (positions pf)"
         "equity_curve pf' = equity_curve pf"
      by blast
    have "priced_entries_nonzero pf' cp"
      using assms(1) c(2) set_delete_subset [of tk "positions pf"]
      by (auto simp: priced_entries_nonzero_def)
    with True Some nz c show ?thesis by (auto simp: update_position_def)
  next
    case False
    let ?pf' = "pf\<lparr>positions := AList.update tk (trail_stop rules p price) (positions pf)\<rparr>"
    have "priced_entries_nonzero ?pf' cp"
      unfolding priced_entries_nonzero_def
    proof (intro allI impI)
      fix a b
      assume m: "(a, b) \<in> set (positions ?pf')" and c: "cp a \<noteq> None"
      from m set_update_subset [of tk "trail_stop rules p price" "positions pf"]
      have "(a, b) = (tk, trail_stop rules p price) \<or> (a, b) \<in> set (positions pf)"
        by auto
      then show "entry_price b \<noteq> 0"
      proof
        assume "(a, b) = (tk, trail_stop rules p price)"
        with nz show ?thesis by (simp add: trail_stop_fields)
      next
        assume "(a, b) \<in> set (positions pf)"
        with assms(1) c show ?thesis by (simp add: priced_entries_nonzero_def)
      qed
    qed
    with False Some nz show ?thesis by (simp add: update_position_def)
  qed
qed

lemma update_positions_returns:
  "priced_entries_nonzero pf cp \<Longrightarrow>
   \<exists>pf'. update_positions rules pf tks cp t = Returned pf' \<and>
     equity_curve pf' = equity_curve pf"
proof (induction tks arbitrary: pf)
  case Nil
  then show ?case by simp
next
  case (Cons tk tks)
  show ?case
  proof (cases "cp tk")
    case None
    with Cons show ?thesis by simp
  next
    case (Some price)
    from update_position_returns [OF Cons.prems Some, of rules t] obtain pf1 where
      u: "update_position rules pf tk price t = Returned pf1"
         "priced_entries_nonzero pf1 cp" "equity_curve pf1 = equity_curve pf"
      by blast
    from Cons.IH [OF u(2)] obtain pf' where
      "update_positions rules pf1 tks cp t = Returned pf'" "equity_curve pf' = equity_curve pf1"
      by blast
    with Some u show ?thesis by simp
  qed
qed







section \<open>The claims\<close>



text \<open>
  C2, as the code behaves. \<open>add_position\<close> has no test for a ticker that is already held:
  whatever the ledger holds, it stores the new position under its ticker (replacing the one that
  was there), debits \<open>quantity * entry_price\<close> of the new position from the cash and appends
  one opening transaction; the closed positions and the equity curve stay as they were.
\<close>

theorem add_position_replaces:
  "cash (add_position pf p) = cash pf - quantity p * entry_price p \<and>
   map_of (positions (add_position pf p)) = (map_of (positions pf))(ticker p \<mapsto> p) \<and>
   transactions (add_position pf p) = transactions pf @
     [\<lparr>tx_type = ''open'', tx_ticker = ticker p, tx_quantity = quantity p,
       tx_price = entry_price p, tx_timestamp = entry_time p,
       tx_value = quantity p * entry_price p, tx_pnl = None, tx_pnl_percentage = None\<rparr>] \<and>
   closed_positions (add_position pf p) = closed_positions pf \<and>
   equity_curve (add_position pf p) = equity_curve pf"
  by (simp add: add_position_def update_conv')

text \<open>
  C2 as stated fails: with AAPL already held, adding a second AAPL position is not rejected. The
  cash falls from 98500 to 97700, the stored position is replaced and a transaction is appended.
\<close>

theorem add_position_duplicate_counterexample:
  "map_of (positions held) ''AAPL'' = Some aapl \<and>
   ticker (Position ''AAPL'' 5 160 2 None None) = ''AAPL'' \<and>
   cash held = 98500 \<and>
   cash (add_position held (Position ''AAPL'' 5 160 2 None None)) = 97700 \<and>
   positions (add_position held (Position ''AAPL'' 5 160 2 None None)) =
     [(''AAPL'', Position ''AAPL'' 5 160 2 None None)] \<and>
   length (transactions (add_position held (Position ''AAPL'' 5 160 2 None None))) =
     Suc (length (transactions held)) \<and>
   add_position held (Position ''AAPL'' 5 160 2 None None) \<noteq> held"
proof -
  have c: "cash (add_position held (Position ''AAPL'' 5 160 2 None None)) = 97700"
    by (simp add: add_position_def held_cash Position_def)
  have "cash (add_position held (Position ''AAPL'' 5 160 2 None None)) \<noteq> cash held"
    unfolding c held_cash by simp
  then have ne: "add_position held (Position ''AAPL'' 5 160 2 None None) \<noteq> held"
    by auto
  show ?thesis
    using c ne by (simp add: held_positions held_cash add_position_def Position_def)
qed

text \<open>
  C3, as the code behaves. For an open long position (\<open>quantity > 0\<close>) with stop loss \<open>S\<close>
  and a non-zero entry price, \<open>update_position\<close> at the price \<open>price\<close> returns, and it
  closes the position (the ticker is no longer open afterwards) exactly when \<open>price \<le> S\<close>
  or the position has a take profit \<open>T\<close> with \<open>T \<le> price\<close>.
\<close>

theorem stop_loss_or_take_profit_closes:
  assumes "map_of (positions pf) tk = Some p" and "quantity p > 0"
    and "stop_loss p = Some S" and "entry_price p \<noteq> 0"
  shows "returned (update_position rules pf tk price t) \<and>
         ((map_of (positions (state_of (update_position rules pf tk price t))) tk = None) =
          (price \<le> S \<or> (case take_profit p of None \<Rightarrow> False | Some T \<Rightarrow> T \<le> price)))"
proof (cases "stop_loss_triggered p price \<or> take_profit_triggered p price")
  case True
  then have u: "update_position rules pf tk price t = close_position pf tk price t"
    using assms by (auto simp: update_position_def)
  from close_position_open [OF assms(1) assms(4), of price t] obtain pf' where
    "close_position pf tk price t = Returned pf'" "map_of (positions pf') tk = None"
    by blast
  with u True assms show ?thesis
    by (auto simp: stop_loss_triggered_def take_profit_triggered_def split: option.splits)
next
  case False
  then have "update_position rules pf tk price t =
      Returned (pf\<lparr>positions := AList.update tk (trail_stop rules p price) (positions pf)\<rparr>)"
    using assms update_position_keeps by simp
  with False assms show ?thesis
    by (auto simp: stop_loss_triggered_def take_profit_triggered_def update_conv' split: option.splits)
qed

theorem stop_loss_or_take_profit_closes_witness:
  "map_of (positions held) ''AAPL'' = Some aapl \<and> quantity aapl > 0 \<and>
   stop_loss aapl = Some 145 \<and> entry_price aapl \<noteq> 0 \<and>
   returned (update_position rules5 held ''AAPL'' 140 2) \<and>
   map_of (positions (state_of (update_position rules5 held ''AAPL'' 140 2))) ''AAPL'' = None \<and>
   returned (update_position rules5 held ''AAPL'' 146 2) \<and>
   map_of (positions (state_of (update_position rules5 held ''AAPL'' 146 2))) ''AAPL'' \<noteq> None"
proof -
  have a: "map_of (positions held) ''AAPL'' = Some aapl" by (simp add: held_positions)
  have b: "quantity aapl > 0" by (simp add: aapl_def Position_def)
  have c: "stop_loss aapl = Some 145" by (simp add: aapl_def Position_def)
  have d: "entry_price aapl \<noteq> 0" by (simp add: aapl_def Position_def)
  have e: "take_profit aapl = None" by (simp add: aapl_def Position_def)
  from stop_loss_or_take_profit_closes [OF a b c d, of rules5 140 2]
    stop_loss_or_take_profit_closes [OF a b c d, of rules5 146 2]
  show ?thesis using a b c d e by simp
qed

text \<open>
  C3 as stated fails: a long position with stop loss 145 and take profit 160 is closed by
  \<open>update_position\<close> at the price 165, which is above the stop loss.
\<close>

theorem take_profit_closes_counterexample:
  "map_of (positions (add_position (Portfolio 100000) aapl_tp)) ''AAPL'' = Some aapl_tp \<and>
   quantity aapl_tp > 0 \<and> stop_loss aapl_tp = Some 145 \<and> (165::real) > 145 \<and>
   returned (update_position rules5 (add_position (Portfolio 100000) aapl_tp) ''AAPL'' 165 2) \<and>
   positions (state_of
     (update_position rules5 (add_position (Portfolio 100000) aapl_tp) ''AAPL'' 165 2)) = [] \<and>
   map (\<lambda>q. (ticker q, status q, exit_price q))
     (closed_positions (state_of
       (update_position rules5 (add_position (Portfolio 100000) aapl_tp) ''AAPL'' 165 2))) =
     [(''AAPL'', ''closed'', Some 165)]"
  by (simp add: update_position_def close_position_def close_def add_position_def Portfolio_def
      aapl_tp_def Position_def stop_loss_triggered_def take_profit_triggered_def Let_def rules5_def)

text \<open>
  C4. Take an open position with stop loss \<open>s\<close> and any sequence of \<open>update_position\<close>
  calls (for any tickers and prices). If the position is still open afterwards, its stop loss is
  at least \<open>s\<close> when the position is long, and at most \<open>s\<close> when it is short. Moreover,
  for a long position and a trailing percentage of at most 1, when two successive calls for the
  ticker carry prices \<open>p1\<close> and then \<open>p2 \<le> p1\<close> and the position stays open, the second
  call leaves the stop loss as the first call left it.
\<close>

theorem trailing_stop_monotone:
  assumes "map_of (positions pf) tk = Some p"
  shows "(quantity p > 0 \<and> stop_loss p = Some s \<and>
          map_of (positions (state_of (run_updates rules pf calls))) tk = Some p' \<longrightarrow>
            (\<exists>s'. stop_loss p' = Some s' \<and> s \<le> s')) \<and>
         (quantity p < 0 \<and> stop_loss p = Some s \<and>
          map_of (positions (state_of (run_updates rules pf calls))) tk = Some p' \<longrightarrow>
            (\<exists>s'. stop_loss p' = Some s' \<and> s' \<le> s)) \<and>
         (quantity p > 0 \<and> percentage rules \<le> 1 \<and> p2 \<le> p1 \<and>
          map_of (positions (state_of (update_position rules pf tk p1 t1))) tk = Some a \<and>
          map_of (positions (state_of
            (update_position rules (state_of (update_position rules pf tk p1 t1)) tk p2 t2))) tk
            = Some b \<longrightarrow>
            stop_loss b = stop_loss a)"
proof (intro conjI impI)
  assume "quantity p > 0 \<and> stop_loss p = Some s \<and>
          map_of (positions (state_of (run_updates rules pf calls))) tk = Some p'"
  then show "\<exists>s'. stop_loss p' = Some s' \<and> s \<le> s'"
    using long_stop_run [OF assms, of s rules calls p'] by simp
next
  assume "quantity p < 0 \<and> stop_loss p = Some s \<and>
          map_of (positions (state_of (run_updates rules pf calls))) tk = Some p'"
  then show "\<exists>s'. stop_loss p' = Some s' \<and> s' \<le> s"
    using short_stop_run [OF assms, of s rules calls p'] by simp
next
  assume "quantity p > 0 \<and> percentage rules \<le> 1 \<and> p2 \<le> p1 \<and>
          map_of (positions (state_of (update_position rules pf tk p1 t1))) tk = Some a \<and>
          map_of (positions (state_of
            (update_position rules (state_of (update_position rules pf tk p1 t1)) tk p2 t2))) tk
            = Some b"
  then show "stop_loss b = stop_loss a"
    using falling_price_keeps_stop [OF assms, of rules p2 p1 t1 a t2 b] by simp
qed

theorem trailing_stop_monotone_witness:
  "map_of (positions held) ''AAPL'' = Some aapl \<and> quantity aapl > 0 \<and>
   stop_loss aapl = Some 145 \<and>
   map_of (positions (state_of (run_updates rules5 held [(''AAPL'', 160, 2), (''AAPL'', 170, 3)])))
     ''AAPL'' = Some (aapl\<lparr>stop_loss := Some (323 / 2)\<rparr>) \<and>
   (\<exists>s'. stop_loss (aapl\<lparr>stop_loss := Some (323 / 2)\<rparr>) = Some s' \<and> 145 \<le> s') \<and>
   percentage rules5 \<le> 1 \<and> (165 :: real) \<le> 170 \<and>
   map_of (positions (state_of (update_position rules5 held ''AAPL'' 170 2))) ''AAPL'' =
     Some (aapl\<lparr>stop_loss := Some (323 / 2)\<rparr>) \<and>
   map_of (positions (state_of (update_position rules5
     (state_of (update_position rules5 held ''AAPL'' 170 2)) ''AAPL'' 165 3))) ''AAPL'' =
     Some (aapl\<lparr>stop_loss := Some (323 / 2)\<rparr>) \<and>
   map_of (positions (add_position (Portfolio 100000) tsla)) ''TSLA'' = Some tsla \<and>
   quantity tsla < 0 \<and> stop_loss tsla = Some 210 \<and>
   map_of (positions (state_of (run_updates rules5 (add_position (Portfolio 100000) tsla)
     [(''TSLA'', 190, 2)]))) ''TSLA'' = Some (tsla\<lparr>stop_loss := Some (399 / 2)\<rparr>) \<and>
   (\<exists>s'. stop_loss (tsla\<lparr>stop_loss := Some (399 / 2)\<rparr>) = Some s' \<and> s' \<le> 210)"
proof -
  have a: "map_of (positions held) ''AAPL'' = Some aapl" by (simp add: held_positions)
  have b: "quantity aapl > 0" "stop_loss aapl = Some 145"
    by (simp_all add: aapl_def Position_def)
  have c: "map_of (positions (state_of (run_updates rules5 held
      [(''AAPL'', 160, 2), (''AAPL'', 170, 3)]))) ''AAPL'' = Some (aapl\<lparr>stop_loss := Some (323 / 2)\<rparr>)"
    by (simp add: held_def eval_defs aapl_def rules5_def)
  have d: "percentage rules5 \<le> 1" by (simp add: rules5_def)
  have e: "map_of (positions (state_of (update_position rules5 held ''AAPL'' 170 2))) ''AAPL'' =
     Some (aapl\<lparr>stop_loss := Some (323 / 2)\<rparr>)"
    by (simp add: held_def eval_defs aapl_def rules5_def)
  have f: "map_of (positions (state_of (update_position rules5
     (state_of (update_position rules5 held ''AAPL'' 170 2)) ''AAPL'' 165 3))) ''AAPL'' =
     Some (aapl\<lparr>stop_loss := Some (323 / 2)\<rparr>)"
    by (simp add: held_def eval_defs aapl_def rules5_def)
  have g: "map_of (positions (add_position (Portfolio 100000) tsla)) ''TSLA'' = Some tsla"
    by (simp add: add_position_def Portfolio_def tsla_def Position_def)
  have h: "quantity tsla < 0" "stop_loss tsla = Some 210"
    by (simp_all add: tsla_def Position_def)
  have i: "map_of (positions (state_of (run_updates rules5 (add_position (Portfolio 100000) tsla)
     [(''TSLA'', 190, 2)]))) ''TSLA'' = Some (tsla\<lparr>stop_loss := Some (399 / 2)\<rparr>)"
    by (simp add: eval_defs tsla_def rules5_def)
  from trailing_stop_monotone [OF a, of 145 rules5 "[(''AAPL'', 160, 2), (''AAPL'', 170, 3)]"
      "aapl\<lparr>stop_loss := Some (323 / 2)\<rparr>" 165 170 2 "aapl\<lparr>stop_loss := Some (323 / 2)\<rparr>" 3
      "aapl\<lparr>stop_loss := Some (323 / 2)\<rparr>"]
    trailing_stop_monotone [OF g, of 210 rules5 "[(''TSLA'', 190, 2)]"
      "tsla\<lparr>stop_loss := Some (399 / 2)\<rparr>" 0 0 0 tsla 0 tsla]
  show ?thesis using a b c d e f g h i by simp
qed

text \<open>
  C5. When the ticker has no open position, \<open>close_position\<close> and \<open>update_position\<close>
  return normally and leave the whole ledger as it was. Hence, after a \<open>close_position\<close>
  that returned, a second \<open>close_position\<close> for the same ticker changes nothing.
\<close>

theorem absent_ticker_noop:
  "(map_of (positions pf) tk = None \<longrightarrow>
      close_position pf tk e t = Returned pf \<and>
      update_position rules pf tk price t' = Returned pf) \<and>
   (close_position pf tk e t = Returned pf' \<longrightarrow>
      close_position pf' tk e2 t2 = Returned pf')"
proof (intro conjI impI)
  assume "map_of (positions pf) tk = None"
  then show "close_position pf tk e t = Returned pf"
    by (simp add: close_position_def)
next
  assume "map_of (positions pf) tk = None"
  then show "update_position rules pf tk price t' = Returned pf"
    by (simp add: update_position_def)
next
  assume c: "close_position pf tk e t = Returned pf'"
  have "map_of (positions pf') tk = None"
  proof (cases "map_of (positions pf) tk")
    case None
    with c show ?thesis by (simp add: close_position_def)
  next
    case (Some p)
    with c show ?thesis
      by (auto simp: close_position_def map_of_delete_same split: outcome.splits)
  qed
  then show "close_position pf' tk e2 t2 = Returned pf'"
    by (simp add: close_position_def)
qed

theorem absent_ticker_noop_witness:
  "map_of (positions held) ''MSFT'' = None \<and>
   close_position held ''MSFT'' 140 2 = Returned held \<and>
   update_position \<lparr>trailing = True, percentage = 5 / 100\<rparr> held ''MSFT'' 140 2 = Returned held \<and>
   returned (close_position held ''AAPL'' 140 2) \<and>
   close_position (state_of (close_position held ''AAPL'' 140 2)) ''AAPL'' 150 3 =
     Returned (state_of (close_position held ''AAPL'' 140 2))"
proof -
  have a: "map_of (positions held) ''MSFT'' = None"
    by (simp add: held_positions)
  have b: "close_position held ''AAPL'' 140 2 = Returned (state_of (close_position held ''AAPL'' 140 2))"
    by (simp add: close_position_def held_positions close_def aapl_def Position_def Let_def)
  from absent_ticker_noop [of held "''MSFT''" 140 2 "\<lparr>trailing = True, percentage = 5 / 100\<rparr>" 140 2 held 150 3] a
    absent_ticker_noop [of held "''AAPL''" 140 2 "\<lparr>trailing = True, percentage = 5 / 100\<rparr>" 140 2
       "state_of (close_position held ''AAPL'' 140 2)" 150 3] b
  show ?thesis by (metis returned.simps(1))
qed

text \<open>
  C6. One call of \<open>update_position\<close> on an open position with a non-zero entry price. When
  the stop-loss test holds, the call is exactly \<open>close_position\<close> at the current price,
  whatever the take-profit test says. When it fails and the take-profit test holds, the call is
  again exactly \<open>close_position\<close>. Only when both fail is the trailing stop recomputed, and
  then nothing but the stored position changes. That \<open>close_position\<close> returns, closes the
  position once, with the stop loss it had before the call, and appends one transaction.
\<close>

theorem exit_checks_in_order:
  assumes "map_of (positions pf) tk = Some p" and "entry_price p \<noteq> 0"
  shows "(stop_loss_triggered p price \<longrightarrow>
            update_position rules pf tk price t = close_position pf tk price t) \<and>
         (\<not> stop_loss_triggered p price \<and> take_profit_triggered p price \<longrightarrow>
            update_position rules pf tk price t = close_position pf tk price t) \<and>
         (\<not> stop_loss_triggered p price \<and> \<not> take_profit_triggered p price \<longrightarrow>
            update_position rules pf tk price t =
              Returned (pf\<lparr>positions :=
                AList.update tk (trail_stop rules p price) (positions pf)\<rparr>)) \<and>
         (\<exists>pf'. close_position pf tk price t = Returned pf' \<and>
            map_of (positions pf') tk = None \<and>
            closed_positions pf' = closed_positions pf @ [state_of (close p price t)] \<and>
            stop_loss (state_of (close p price t)) = stop_loss p \<and>
            length (transactions pf') = Suc (length (transactions pf)))"
proof -
  from close_position_open [OF assms, of price t] close_entry_nonzero [OF assms(2), of price t]
  have "\<exists>pf'. close_position pf tk price t = Returned pf' \<and>
            map_of (positions pf') tk = None \<and>
            closed_positions pf' = closed_positions pf @ [state_of (close p price t)] \<and>
            stop_loss (state_of (close p price t)) = stop_loss p \<and>
            length (transactions pf') = Suc (length (transactions pf))"
    by auto
  then show ?thesis using assms by (simp add: update_position_def)
qed

theorem exit_checks_in_order_witness:
  "map_of (positions held) ''AAPL'' = Some aapl \<and> entry_price aapl \<noteq> 0 \<and>
   stop_loss_triggered aapl 140 \<and>
   update_position rules5 held ''AAPL'' 140 2 = close_position held ''AAPL'' 140 2 \<and>
   \<not> stop_loss_triggered aapl 160 \<and> \<not> take_profit_triggered aapl 160 \<and>
   update_position rules5 held ''AAPL'' 160 2 =
     Returned (held\<lparr>positions := [(''AAPL'', aapl\<lparr>stop_loss := Some 152\<rparr>)]\<rparr>)"
proof -
  have a: "map_of (positions held) ''AAPL'' = Some aapl" by (simp add: held_positions)
  have b: "entry_price aapl \<noteq> 0" by (simp add: aapl_def Position_def)
  have c: "stop_loss_triggered aapl 140"
    by (simp add: stop_loss_triggered_def aapl_def Position_def)
  have d: "\<not> stop_loss_triggered aapl 160" "\<not> take_profit_triggered aapl 160"
    by (simp_all add: stop_loss_triggered_def take_profit_triggered_def aapl_def Position_def)
  have e: "trail_stop rules5 aapl 160 = aapl\<lparr>stop_loss := Some 152\<rparr>"
    by (simp add: trail_stop_def rules5_def aapl_def Position_def update_stop_loss_def)
  from exit_checks_in_order [OF a b, of 140 rules5 2] exit_checks_in_order [OF a b, of 160 rules5 2]
  show ?thesis using a b c d e by (simp add: held_positions)
qed

text \<open>
  C7, as the code behaves. For a position with a non-zero entry price \<open>n\<close> and quantity
  \<open>q\<close>, \<open>Position.close\<close> at the exit price \<open>e\<close> returns with
  \<open>pnl = (e - n) * q\<close>, with \<open>pnl_percentage = (e / n - 1) * 100\<close> when \<open>q > 0\<close> and
  the negated value when \<open>q \<le> 0\<close> (short, and also a zero quantity), and with the status
  \<open>closed\<close>; the exit price and time are stored and the other fields are kept.
\<close>

theorem close_sets_pnl:
  assumes "entry_price p \<noteq> 0"
  shows "\<exists>p'. close p e t = Returned p' \<and>
           pnl p' = (e - entry_price p) * quantity p \<and>
           pnl_percentage p' =
             (if quantity p > 0 then (e / entry_price p - 1) * 100
              else - ((e / entry_price p - 1) * 100)) \<and>
           status p' = ''closed'' \<and> exit_price p' = Some e \<and> exit_time p' = Some t \<and>
           ticker p' = ticker p \<and> quantity p' = quantity p \<and>
           entry_price p' = entry_price p \<and> stop_loss p' = stop_loss p \<and>
           take_profit p' = take_profit p"
  using assms by (simp add: close_def Let_def)

theorem close_sets_pnl_witness:
  "entry_price aapl \<noteq> 0 \<and>
   (\<exists>p'. close aapl 140 2 = Returned p' \<and> pnl p' = - 100 \<and>
      pnl_percentage p' = (140 / 150 - 1) * 100 \<and> status p' = ''closed'')"
proof -
  have h: "entry_price aapl \<noteq> 0" by (simp add: aapl_def Position_def)
  from close_sets_pnl [OF h, of 140 2] show ?thesis
    using h by (auto simp: aapl_def Position_def)
qed

text \<open>
  C7 as stated fails for a position that is not short and not long: with quantity 0, entry
  price 100 and exit price 110, the stored percentage is \<open>- 10\<close>, the flipped value,
  although the quantity is not negative.
\<close>

theorem close_zero_quantity_counterexample:
  "entry_price (Position ''AAPL'' 0 100 1 None None) \<noteq> 0 \<and>
   \<not> quantity (Position ''AAPL'' 0 100 1 None None) < 0 \<and>
   returned (close (Position ''AAPL'' 0 100 1 None None) 110 2) \<and>
   (110 / entry_price (Position ''AAPL'' 0 100 1 None None) - 1) * 100 = 10 \<and>
   pnl_percentage (state_of (close (Position ''AAPL'' 0 100 1 None None) 110 2)) = - 10"
  by (simp add: close_def Position_def Let_def)

text \<open>
  C8, on the model of the spec. For a risk manager with a non-negative risk fraction and a
  non-negative equity, \<open>calculate_position_size\<close> is 0 when the confidence is at or below the
  floor, when the price is not positive and when the confidence is outside 0 to 100; it is
  never negative, and the quantity times the price never exceeds
  \<open>max_risk_percent * portfolio_equity\<close>. The function is total: it raises nowhere.
\<close>

theorem position_size_bounded:
  assumes "0 \<le> max_risk_percent rm" and "0 \<le> portfolio_equity rm"
  shows "(confidence \<le> confidence_floor rm \<longrightarrow>
            calculate_position_size rm symbol signal confidence current_price = 0) \<and>
         (current_price \<le> 0 \<longrightarrow>
            calculate_position_size rm symbol signal confidence current_price = 0) \<and>
         (confidence < 0 \<or> confidence > 100 \<longrightarrow>
            calculate_position_size rm symbol signal confidence current_price = 0) \<and>
         0 \<le> calculate_position_size rm symbol signal confidence current_price \<and>
         calculate_position_size rm symbol signal confidence current_price * current_price
           \<le> max_risk_percent rm * portfolio_equity rm"
proof -
  have e: "0 \<le> max_risk_percent rm * portfolio_equity rm"
    using assms by simp
  have b: "calculate_position_size rm symbol signal confidence current_price * current_price
           \<le> max_risk_percent rm * portfolio_equity rm"
  proof (cases "current_price \<le> 0 \<or> confidence < 0 \<or> confidence > 100 \<or>
                confidence \<le> confidence_floor rm")
    case True
    then have "calculate_position_size rm symbol signal confidence current_price = 0"
      by (auto simp: calculate_position_size_def)
    with e show ?thesis by simp
  next
    case False
    then have c: "0 \<le> confidence / 100" "confidence / 100 \<le> 1" and p: "current_price > 0"
      by auto
    from False have "calculate_position_size rm symbol signal confidence current_price * current_price
        = max_risk_percent rm * portfolio_equity rm * (confidence / 100)"
      using p by (simp add: calculate_position_size_def)
    also have "\<dots> \<le> max_risk_percent rm * portfolio_equity rm * 1"
      using e c(2) by (rule mult_left_mono [rotated])
    finally show ?thesis by simp
  qed
  have n: "0 \<le> calculate_position_size rm symbol signal confidence current_price"
    using assms by (auto simp: calculate_position_size_def)
  show ?thesis using b n by (auto simp: calculate_position_size_def)
qed

theorem position_size_bounded_witness:
  "0 \<le> max_risk_percent two_percent \<and> 0 \<le> portfolio_equity two_percent \<and>
   calculate_position_size two_percent ''AAPL'' ''BUY'' 80 160 = 10 \<and>
   calculate_position_size two_percent ''AAPL'' ''BUY'' 80 160 * 160
     \<le> max_risk_percent two_percent * portfolio_equity two_percent \<and>
   calculate_position_size two_percent ''AAPL'' ''BUY'' 60 160 = 0 \<and>
   calculate_position_size two_percent ''AAPL'' ''BUY'' 80 0 = 0 \<and>
   calculate_position_size two_percent ''AAPL'' ''BUY'' 101 160 = 0"
proof -
  have a: "0 \<le> max_risk_percent two_percent" "0 \<le> portfolio_equity two_percent"
    by (simp_all add: two_percent_def)
  have v: "calculate_position_size two_percent ''AAPL'' ''BUY'' 80 160 = 10"
    by (simp add: calculate_position_size_def two_percent_def)
  from position_size_bounded [OF a, of 80 "''AAPL''" "''BUY''" 160]
    position_size_bounded [OF a, of 60 "''AAPL''" "''BUY''" 160]
    position_size_bounded [OF a, of 80 "''AAPL''" "''BUY''" 0]
    position_size_bounded [OF a, of 101 "''AAPL''" "''BUY''" 160]
  show ?thesis using a v by (simp add: two_percent_def)
qed

text \<open>
  C9. \<open>get_portfolio_value\<close> is the cash plus \<open>quantity * price\<close> over the open positions
  whose ticker is in the snapshot; a position whose ticker is absent adds nothing. When no open
  position that the snapshot prices has a zero entry price, \<open>update_portfolio\<close> returns and
  appends exactly one sample to the equity curve, whose value is that sum over the positions
  still open after the updates and whose cash is the cash after the updates.
\<close>

theorem unpriced_positions_count_zero:
  assumes "\<forall>(tk, p) \<in> set (positions pf). current_prices tk \<noteq> None \<longrightarrow> entry_price p \<noteq> 0"
  shows "get_portfolio_value pf current_prices =
           cash pf + (\<Sum>(tk, p)\<leftarrow>filter (\<lambda>(tk, p). current_prices tk \<noteq> None) (positions pf).
                        quantity p * the (current_prices tk)) \<and>
         (\<exists>pf'. update_portfolio rules pf current_prices t = Returned pf' \<and>
            equity_curve pf' = equity_curve pf @
              [\<lparr>ec_timestamp = t,
                ec_portfolio_value =
                  cash pf' + (\<Sum>(tk, p)\<leftarrow>filter (\<lambda>(tk, p). current_prices tk \<noteq> None)
                                 (positions pf'). quantity p * the (current_prices tk)),
                ec_cash = cash pf'\<rparr>] \<and>
            get_portfolio_value pf' current_prices =
              cash pf' + (\<Sum>(tk, p)\<leftarrow>filter (\<lambda>(tk, p). current_prices tk \<noteq> None)
                             (positions pf'). quantity p * the (current_prices tk)))"
proof -
  have v: "\<And>q. get_portfolio_value q current_prices =
      cash q + (\<Sum>(tk, p)\<leftarrow>filter (\<lambda>(tk, p). current_prices tk \<noteq> None) (positions q).
                  quantity p * the (current_prices tk))"
    by (simp add: get_portfolio_value_def add_values_sum sum_priced_filter)
  from assms have "priced_entries_nonzero pf current_prices"
    by (auto simp: priced_entries_nonzero_def)
  from update_positions_returns [OF this, of rules "map fst (positions pf)" t] obtain pf1 where
    u: "update_positions rules pf (map fst (positions pf)) current_prices t = Returned pf1"
       "equity_curve pf1 = equity_curve pf"
    by blast
  let ?s = "\<lparr>ec_timestamp = t,
             ec_portfolio_value = add_values (cash pf1) (positions pf1) current_prices,
             ec_cash = cash pf1\<rparr>"
  let ?pf' = "pf1\<lparr>equity_curve := equity_curve pf1 @ [?s]\<rparr>"
  have r: "update_portfolio rules pf current_prices t = Returned ?pf'"
    using u(1) by (simp add: update_portfolio_def)
  have "equity_curve ?pf' = equity_curve pf @
              [\<lparr>ec_timestamp = t,
                ec_portfolio_value =
                  cash ?pf' + (\<Sum>(tk, p)\<leftarrow>filter (\<lambda>(tk, p). current_prices tk \<noteq> None)
                                 (positions ?pf'). quantity p * the (current_prices tk)),
                ec_cash = cash ?pf'\<rparr>]"
    using u(2) by (simp add: add_values_sum sum_priced_filter)
  with r v [of ?pf'] v [of pf] show ?thesis by blast
qed

theorem unpriced_positions_count_zero_witness:
  "positions two_held = [(''AAPL'', aapl), (''MSFT'', msft)] \<and>
   entry_price aapl \<noteq> 0 \<and> [''AAPL'' \<mapsto> 160::real] ''MSFT'' = None \<and>
   get_portfolio_value two_held [''AAPL'' \<mapsto> 160] = 98900 \<and>
   returned (update_portfolio rules5 two_held [''AAPL'' \<mapsto> 160] 2) \<and>
   equity_curve (state_of (update_portfolio rules5 two_held [''AAPL'' \<mapsto> 160] 2)) =
     [\<lparr>ec_timestamp = 2, ec_portfolio_value = 98900, ec_cash = 97300\<rparr>]"
proof -
  have p: "positions two_held = [(''AAPL'', aapl), (''MSFT'', msft)]"
    by (simp add: two_held_def add_position_def Portfolio_def aapl_def msft_def Position_def)
  have h: "\<forall>(tk, p) \<in> set (positions two_held).
             [''AAPL'' \<mapsto> 160::real] tk \<noteq> None \<longrightarrow> entry_price p \<noteq> 0"
    by (simp add: p aapl_def Position_def)
  have e: "equity_curve (state_of (update_portfolio rules5 two_held [''AAPL'' \<mapsto> 160] 2)) =
     [\<lparr>ec_timestamp = 2, ec_portfolio_value = 98900, ec_cash = 97300\<rparr>]"
    by (simp add: update_portfolio_def two_held_def eval_defs aapl_def msft_def rules5_def)
  have g: "get_portfolio_value two_held [''AAPL'' \<mapsto> 160] = 98900"
    by (simp add: get_portfolio_value_def two_held_def add_position_def Portfolio_def aapl_def
        msft_def Position_def)
  from unpriced_positions_count_zero [OF h, of rules5 2] obtain pf' where
    "update_portfolio rules5 two_held [''AAPL'' \<mapsto> 160] 2 = Returned pf'" by blast
  then have "returned (update_portfolio rules5 two_held [''AAPL'' \<mapsto> 160] 2)" by simp
  with p e g show ?thesis by (simp add: aapl_def Position_def)
qed

text \<open>
  C10. An open position without a stop loss keeps none: after any sequence of
  \<open>update_position\<close> calls, whatever the trailing-stop rules and the prices, the position is
  either no longer open or it is the very position it was, with no stop loss.
\<close>

theorem no_stop_loss_never_set:
  assumes "map_of (positions pf) tk = Some p" and "stop_loss p = None"
    and "map_of (positions (state_of (run_updates rules pf calls))) tk = Some p'"
  shows "stop_loss p' = None \<and> p' = p"
proof -
  let ?I = "\<lambda>pf::portfolio. map_of (positions pf) tk = None \<or> map_of (positions pf) tk = Some p"
  have "?I (state_of (run_updates rules pf calls))"
  proof (rule run_updates_invariant [where I = ?I])
    fix pf0 tk' price t
    assume i: "?I pf0"
    show "?I (state_of (update_position rules pf0 tk' price t))"
    proof (cases "tk' = tk")
      case False
      with i update_position_other [OF False, of rules pf0 price t] show ?thesis by simp
    next
      case True
      from i show ?thesis
      proof
        assume "map_of (positions pf0) tk = None"
        from update_position_absent [OF this, of rules tk' price t] show ?thesis by simp
      next
        assume "map_of (positions pf0) tk = Some p"
        from update_position_same [OF this, of rules price t] True assms(2) show ?thesis
          by (auto simp: trail_stop_no_stop)
      qed
    qed
  next
    show "?I pf" using assms(1) by simp
  qed
  with assms(2,3) show ?thesis by simp
qed

theorem no_stop_loss_never_set_witness:
  "map_of (positions (add_position (Portfolio 100000) msft)) ''MSFT'' = Some msft \<and>
   stop_loss msft = None \<and>
   map_of (positions (state_of (run_updates rules5 (add_position (Portfolio 100000) msft)
     [(''MSFT'', 310, 2), (''MSFT'', 350, 3)]))) ''MSFT'' = Some msft"
proof -
  have a: "map_of (positions (add_position (Portfolio 100000) msft)) ''MSFT'' = Some msft"
    by (simp add: add_position_def Portfolio_def msft_def Position_def)
  have b: "stop_loss msft = None" by (simp add: msft_def Position_def)
  have c: "map_of (positions (state_of (run_updates rules5 (add_position (Portfolio 100000) msft)
     [(''MSFT'', 310, 2), (''MSFT'', 350, 3)]))) ''MSFT'' \<noteq> None"
    by (simp add: eval_defs msft_def rules5_def)
  then obtain p' where d: "map_of (positions (state_of (run_updates rules5
     (add_position (Portfolio 100000) msft) [(''MSFT'', 310, 2), (''MSFT'', 350, 3)]))) ''MSFT''
     = Some p'" by blast
  from no_stop_loss_never_set [OF a b d] a b d show ?thesis by simp
qed

end
